theory Spec2Isabelle
  imports Main "HOL-Library.Word"
begin

section \<open>Strings and paths\<close>

text \<open>
  Go strings are byte sequences; they are modelled as \<open>string\<close> (a list of 8-bit
  characters). The helpers below are the functions of Go's \<^verbatim>\<open>strings\<close> and
  \<^verbatim>\<open>path/filepath\<close> packages that the program calls.
\<close>

type_synonym path = string

definition strings_HasSuffix :: "string \<Rightarrow> string \<Rightarrow> bool" where
  "strings_HasSuffix s suffix =
     (length suffix \<le> length s \<and> drop (length s - length suffix) s = suffix)"

definition strings_TrimSuffix :: "string \<Rightarrow> string \<Rightarrow> string" where
  "strings_TrimSuffix s suffix =
     (if strings_HasSuffix s suffix then take (length s - length suffix) s else s)"

text \<open>\<^verbatim>\<open>strings.Contains(s, substr)\<close>: \<open>substr\<close> occurs somewhere in \<open>s\<close>.\<close>

fun strings_Contains :: "string \<Rightarrow> string \<Rightarrow> bool" where
  "strings_Contains [] substr = (substr = [])"
| "strings_Contains (c # cs) substr =
     (take (length substr) (c # cs) = substr \<or> strings_Contains cs substr)"

text \<open>
  \<^verbatim>\<open>strings.Replace(s, old, new, 1)\<close>: the first occurrence of \<open>old\<close>, wherever it
  stands in \<open>s\<close>, is replaced by \<open>new\<close>.
\<close>

fun strings_Replace1 :: "string \<Rightarrow> string \<Rightarrow> string \<Rightarrow> string" where
  "strings_Replace1 [] old new = (if old = [] then new else [])"
| "strings_Replace1 (c # cs) old new =
     (if take (length old) (c # cs) = old then new @ drop (length old) (c # cs)
      else c # strings_Replace1 cs old new)"

text \<open>
  \<^verbatim>\<open>filepath.Join\<close> and \<^verbatim>\<open>filepath.Dir\<close> on paths that are already clean (no
  trailing separator, no \<^verbatim>\<open>.\<close> or \<^verbatim>\<open>..\<close> element inside), where
  \<^verbatim>\<open>filepath.Clean\<close> has nothing left to do.
\<close>

definition filepath_Join :: "path \<Rightarrow> path \<Rightarrow> path" where
  "filepath_Join dir name =
     (if dir = [] \<or> dir = ''.'' then name
      else if dir = ''/'' then ''/'' @ name
      else dir @ ''/'' @ name)"

definition filepath_Dir :: "path \<Rightarrow> path" where
  "filepath_Dir p =
     (if CHR ''/'' \<notin> set p then ''.''
      else (let d = rev (tl (dropWhile (\<lambda>c. c \<noteq> CHR ''/'') (rev p)))
            in if d = [] then ''/'' else d))"

text \<open>\<^verbatim>\<open>fmt.Sprintf("%d", n)\<close>: the decimal digits of an integer.\<close>

definition digitChar :: "nat \<Rightarrow> char" where
  "digitChar d = ''0123456789'' ! d"

function showNat :: "nat \<Rightarrow> string" where
  "showNat n = (if n < 10 then [digitChar n] else showNat (n div 10) @ [digitChar (n mod 10)])"
  by pat_completeness auto
termination
  by (relation "measure id") auto

declare showNat.simps [simp del]

definition showInt :: "int \<Rightarrow> string" where
  "showInt i = (if i < 0 then ''-'' @ showNat (nat (- i)) else showNat (nat i))"

subsection \<open>sanitizeFilename (main.go)\<close>

text \<open>
  The character class \<^verbatim>\<open>[a-zA-Z0-9._-]\<close> of the regular expression. Go's
  \<^verbatim>\<open>regexp\<close> walks the string rune by rune; on an ASCII URL every rune is one
  byte and the byte-wise replacement below is what \<^verbatim>\<open>ReplaceAllString\<close> computes.
  (A multi-byte rune is outside the class as well and is replaced as a whole by a
  single underscore; the byte model writes one underscore per byte there.)
\<close>

definition safeChar :: "char \<Rightarrow> bool" where
  "safeChar c =
     (c \<in> set ''abcdefghijklmnopqrstuvwxyzABCDEFGHIJKLMNOPQRSTUVWXYZ0123456789._-'')"

definition replaceInvalid :: "string \<Rightarrow> string" where
  "replaceInvalid s = map (\<lambda>c. if safeChar c then c else CHR ''_'') s"

definition sanitizeFilename :: "string \<Rightarrow> string" where
  "sanitizeFilename url =
     (let url1 = strings_Replace1 url ''https://'' [];
          url2 = strings_Replace1 url1 ''http://'' [];
          url3 = replaceInvalid url2
      in if length url3 > 50 then take 50 url3 else url3)"

section \<open>The world outside the program\<close>

text \<open>
  A file is either the output of \<^verbatim>\<open>jpeg.Encode\<close> for an in-memory image at some
  quality, or a sequence of bytes in some encoding (a downloaded body, or what an
  external tool left behind). An image is the canvas built by \<^verbatim>\<open>image.NewRGBA\<close>
  together with the \<^verbatim>\<open>draw.Draw\<close> fills applied to it, in order.
\<close>

type_synonym rgba = "nat \<times> nat \<times> nat \<times> nat"
type_synonym rect = "int \<times> int \<times> int \<times> int"

record image =
  bounds :: rect
  fills :: "(rect \<times> rgba) list"

datatype format = PNG | JPEG | Unknown

datatype content = JpegOf nat image | Data format string

type_synonym filesystem = "path \<rightharpoonup> content"

datatype event = Exec "string list" | HttpGet string | BodyRead nat

record response =
  StatusCode :: int
  ContentType :: string
  ContentLengthHeader :: string
  ContentLength :: int
  Body :: string
  BodyErr :: bool

datatype http_result = RequestError string | DoError string | Resp response

text \<open>
  The environment: which executables \<^verbatim>\<open>exec.LookPath\<close> finds; what a started
  process does (whether it exits with status 0, and the bytes it leaves at the output
  path named on its command line, if any), which may depend on the files present; what
  an HTTP GET returns (\<open>Body\<close> is what the body stream delivers, \<open>BodyErr\<close> whether the
  stream then ends with an error instead of EOF); how long the JPEG encoding of an image
  is; and which file-system calls fail. Here every started process is taken to
  exit; how long it runs, and a process that never exits, come in with the timed chain
  further down.
\<close>

record env =
  LookPath :: "string \<Rightarrow> bool"
  Run :: "string list \<Rightarrow> filesystem \<Rightarrow> bool \<times> string option"
  httpGet :: "string \<Rightarrow> http_result"
  jpegLen :: "nat \<Rightarrow> image \<Rightarrow> nat"
  mkdirOk :: "path \<Rightarrow> bool"
  createOk :: "path \<Rightarrow> bool"
  writeOk :: "path \<Rightarrow> bool"
  renameOk :: "path \<Rightarrow> path \<Rightarrow> bool"

text \<open>
  The state threaded through the program: the files on disk, and the trace of what the
  program did to the outside (processes started, requests sent, body bytes consumed).
\<close>

record state =
  files :: filesystem
  trace :: "event list"

datatype error =
    StatFailed | TempDirFailed | TempPDFCreateFailed | TempPDFSaveFailed
  | PdftoppmFailed | ImagemagickFailed | PdfimagesFailed | MoveFailed | NoImagesExtracted
  | WkhtmltoimageFailed | ChromeFailed | ChromiumFailed
  | CreateFileFailed | EncodeFailed

definition fileSize :: "env \<Rightarrow> content \<Rightarrow> int" where
  "fileSize e f = (case f of JpegOf q img \<Rightarrow> int (jpegLen e q img) | Data fm bs \<Rightarrow> int (length bs))"

definition isJPEG :: "content \<Rightarrow> bool" where
  "isJPEG f = (case f of JpegOf q img \<Rightarrow> True | Data fm bs \<Rightarrow> fm = JPEG)"

text \<open>The encoding ImageMagick and wkhtmltoimage pick from the output file's suffix.\<close>

definition formatOfExt :: "path \<Rightarrow> format" where
  "formatOfExt p =
     (if strings_HasSuffix p ''.png'' then PNG
      else if strings_HasSuffix p ''.jpg'' \<or> strings_HasSuffix p ''.jpeg'' then JPEG
      else Unknown)"

definition os_Remove :: "path \<Rightarrow> state \<Rightarrow> state" where
  "os_Remove p s = s\<lparr>files := (files s)(p := None)\<rparr>"

definition os_Rename :: "env \<Rightarrow> path \<Rightarrow> path \<Rightarrow> state \<Rightarrow> bool \<times> state" where
  "os_Rename e old new s =
     (case files s old of
        None \<Rightarrow> (False, s)
      | Some f \<Rightarrow>
          if \<not> renameOk e old new then (False, s)
          else if old = new then (True, s)
          else (True, s\<lparr>files := (files s)(new \<mapsto> f, old := None)\<rparr>))"

text \<open>
  \<^verbatim>\<open>exec.Command(argv...).Run()\<close>: when the executable is not on the path the
  process is never started and \<open>Run\<close> returns an error; otherwise the process runs,
  may leave a file at its output path \<open>out\<close> (in encoding \<open>fm\<close>), and \<open>Run\<close>
  returns nil exactly when it exits with status 0. The first component is
  \<open>err == nil\<close>.
\<close>

definition runCmd :: "env \<Rightarrow> string list \<Rightarrow> path \<Rightarrow> format \<Rightarrow> state \<Rightarrow> bool \<times> state" where
  "runCmd e argv out fm s =
     (if \<not> LookPath e (hd argv) then (False, s)
      else (case Run e argv (files s) of
              (ok, written) \<Rightarrow>
                (ok, \<lparr>files = (case written of None \<Rightarrow> files s
                                | Some bs \<Rightarrow> (files s)(out \<mapsto> Data fm bs)),
                      trace = trace s @ [Exec argv]\<rparr>)))"

section \<open>The size optimizer\<close>

definition getFileSize :: "env \<Rightarrow> state \<Rightarrow> path \<Rightarrow> error + int" where
  "getFileSize e s filePath =
     (case files s filePath of None \<Rightarrow> Inl StatFailed | Some f \<Rightarrow> Inr (fileSize e f))"

text \<open>\<^verbatim>\<open>int64(maxSizeKB * 1024)\<close>, the product taken in Go's 64-bit \<^verbatim>\<open>int\<close>.\<close>

definition maxSizeBytes :: "int \<Rightarrow> int" where
  "maxSizeBytes maxSizeKB = sint (word_of_int (maxSizeKB * 1024) :: 64 word)"

text \<open>
  The block both optimizers are built from: run the recompression command, which is
  to leave its candidate at \<open>tempFile\<close>; when it exits with status 0 and the candidate
  is strictly below the budget, remove the artifact and rename the candidate over it
  (neither result is checked by the source), otherwise remove the candidate. The first
  component says whether the candidate was accepted (the block's \<^verbatim>\<open>return nil\<close>).
\<close>

definition tryConvert ::
  "env \<Rightarrow> string list \<Rightarrow> path \<Rightarrow> path \<Rightarrow> int \<Rightarrow> state \<Rightarrow> bool \<times> state" where
  "tryConvert e argv tempFile filePath maxBytes s =
     (case runCmd e argv tempFile (formatOfExt tempFile) s of
        (ok, s1) \<Rightarrow>
          if ok then
            (case getFileSize e s1 tempFile of
               Inr newSize \<Rightarrow>
                 if newSize < maxBytes
                 then (True, snd (os_Rename e tempFile filePath (os_Remove filePath s1)))
                 else (False, os_Remove tempFile s1)
             | Inl err \<Rightarrow> (False, os_Remove tempFile s1))
          else (False, s1))"

subsection \<open>optimizeImageSize (main.go)\<close>

definition optimizeCmd :: "path \<Rightarrow> string list" where
  "optimizeCmd filePath =
     [''convert'', filePath, ''-quality'', ''60'', ''-resize'', ''50%'', filePath @ ''.tmp.jpg'']"

definition optimizeImageSize :: "env \<Rightarrow> path \<Rightarrow> int \<Rightarrow> state \<Rightarrow> error option \<times> state" where
  "optimizeImageSize e filePath maxSizeKB s =
     (case getFileSize e s filePath of
        Inl err \<Rightarrow> (Some err, s)
      | Inr sz \<Rightarrow>
          if sz \<le> maxSizeBytes maxSizeKB then (None, s)
          else (None, snd (tryConvert e (optimizeCmd filePath) (filePath @ ''.tmp.jpg'')
                             filePath (maxSizeBytes maxSizeKB) s)))"

subsection \<open>compressImage (dorkergoodnew/main.go)\<close>

definition compressCmd1 :: "path \<Rightarrow> string list" where
  "compressCmd1 imagePath =
     [''convert'', imagePath, ''-quality'', ''50'', ''-resize'', ''80%'', ''-strip'',
      imagePath @ ''.tmp.jpg'']"

definition compressCmd2 :: "path \<Rightarrow> string list" where
  "compressCmd2 imagePath =
     [''convert'', imagePath, ''-quality'', ''30'', ''-resize'', ''50%'', ''-strip'',
      ''-define'', ''jpeg:dct-method=float'', imagePath @ ''.tmp2.jpg'']"

text \<open>The first and the second \<^verbatim>\<open>if _, err := exec.LookPath("convert")\<close> block.\<close>

definition compressFirst :: "env \<Rightarrow> path \<Rightarrow> int \<Rightarrow> state \<Rightarrow> bool \<times> state" where
  "compressFirst e imagePath maxBytes s =
     (if LookPath e ''convert''
      then tryConvert e (compressCmd1 imagePath) (imagePath @ ''.tmp.jpg'') imagePath maxBytes s
      else (False, s))"

definition compressSecond :: "env \<Rightarrow> path \<Rightarrow> int \<Rightarrow> state \<Rightarrow> bool \<times> state" where
  "compressSecond e imagePath maxBytes s =
     (if LookPath e ''convert''
      then tryConvert e (compressCmd2 imagePath) (imagePath @ ''.tmp2.jpg'') imagePath maxBytes s
      else (False, s))"

definition compressImage :: "env \<Rightarrow> path \<Rightarrow> int \<Rightarrow> state \<Rightarrow> error option \<times> state" where
  "compressImage e imagePath maxSizeKB s =
     (case getFileSize e s imagePath of
        Inl err \<Rightarrow> (Some err, s)
      | Inr sz \<Rightarrow>
          if sz \<le> maxSizeBytes maxSizeKB then (None, s)
          else (case compressFirst e imagePath (maxSizeBytes maxSizeKB) s of
                  (accepted, s1) \<Rightarrow>
                    if accepted then (None, s1)
                    else (None, snd (compressSecond e imagePath (maxSizeBytes maxSizeKB) s1))))"

text \<open>
  In the specification's words: the recompression tool generates a candidate, and the
  candidate fits when its size is below the budget. The tool generates none when it is
  unavailable or fails.
\<close>

definition candidateFits :: "env \<Rightarrow> string list \<Rightarrow> path \<Rightarrow> int \<Rightarrow> state \<Rightarrow> bool" where
  "candidateFits e argv tempFile maxBytes s =
     (case runCmd e argv tempFile (formatOfExt tempFile) s of
        (ok, s1) \<Rightarrow>
          ok \<and> (case files s1 tempFile of None \<Rightarrow> False | Some c \<Rightarrow> fileSize e c < maxBytes))"

section \<open>The synthetic artifact generator (unnamed/part_000)\<close>

definition image_NewRGBA :: "rect \<Rightarrow> image" where
  "image_NewRGBA r = \<lparr>bounds = r, fills = []\<rparr>"

definition draw_Draw :: "image \<Rightarrow> rect \<Rightarrow> rgba \<Rightarrow> image" where
  "draw_Draw img r c = img\<lparr>fills := fills img @ [(r, c)]\<rparr>"

text \<open>
  Iteration \<^verbatim>\<open>for i := 0; i < n; i++ { y := y0 + i*dy; if y > limit { break }; draw }\<close>:
  the first argument counts the iterations that remain.
\<close>

fun drawRows ::
  "nat \<Rightarrow> int \<Rightarrow> (int \<Rightarrow> int) \<Rightarrow> int \<Rightarrow> (int \<Rightarrow> rect) \<Rightarrow> rgba \<Rightarrow> image \<Rightarrow> image" where
  "drawRows 0 i yOf limit rectOf c img = img"
| "drawRows (Suc k) i yOf limit rectOf c img =
     (let y = yOf i
      in if y > limit then img
         else drawRows k (i + 1) yOf limit rectOf c (draw_Draw img (rectOf y) c))"

text \<open>
  \<^verbatim>\<open>saveImage\<close>: \<^verbatim>\<open>os.Create\<close> truncates or creates the file, then
  \<^verbatim>\<open>jpeg.Encode\<close> writes the image at quality 85; an encoder error (a failed write)
  leaves the file created and empty.
\<close>

definition saveImage :: "env \<Rightarrow> image \<Rightarrow> path \<Rightarrow> state \<Rightarrow> error option \<times> state" where
  "saveImage e img outputPath s =
     (if \<not> createOk e outputPath then (Some CreateFileFailed, s)
      else if \<not> writeOk e outputPath
        then (Some EncodeFailed, s\<lparr>files := (files s)(outputPath \<mapsto> Data Unknown [])\<rparr>)
      else (None, s\<lparr>files := (files s)(outputPath \<mapsto> JpegOf 85 img)\<rparr>))"

definition pdfImage :: image where
  "pdfImage =
     (let width = 1024; height = 768;
          img = image_NewRGBA (0, 0, width, height);
          img = draw_Draw img (bounds img) (245, 245, 250, 255);
          img = draw_Draw img (0, 0, width, 100) (41, 128, 185, 255);
          img = drawRows 15 0 (\<lambda>i. 150 + i * 40) (height - 100)
                  (\<lambda>y. (50, y, width - 50, y + 25)) (100, 100, 100, 255) img;
          img = draw_Draw img (0, height - 50, width, height) (200, 200, 200, 255)
      in img)"

definition createPDFVisualization ::
  "env \<Rightarrow> path \<Rightarrow> string \<Rightarrow> string \<Rightarrow> state \<Rightarrow> error option \<times> state" where
  "createPDFVisualization e outputPath url contentLength s = saveImage e pdfImage outputPath s"

definition htmlImage :: image where
  "htmlImage =
     (let width = 1024; height = 768;
          img = image_NewRGBA (0, 0, width, height);
          img = draw_Draw img (bounds img) (250, 250, 250, 255);
          img = draw_Draw img (0, 0, width, 60) (52, 73, 94, 255);
          img = drawRows 12 0 (\<lambda>i. 100 + i * 50) (height - 100)
                  (\<lambda>y. (30, y, width - 30, y + 30)) (149, 165, 166, 255) img;
          img = draw_Draw img (width - 200, 80, width, height - 50) (189, 195, 199, 255);
          img = draw_Draw img (0, height - 50, width, height) (44, 62, 80, 255)
      in img)"

definition createHTMLVisualization ::
  "env \<Rightarrow> path \<Rightarrow> string \<Rightarrow> int \<Rightarrow> state \<Rightarrow> error option \<times> state" where
  "createHTMLVisualization e outputPath url contentLength s = saveImage e htmlImage outputPath s"

definition successImage :: image where
  "successImage =
     (let width = 1024; height = 768;
          img = image_NewRGBA (0, 0, width, height);
          img = draw_Draw img (bounds img) (230, 245, 230, 255);
          img = draw_Draw img (0, 0, width, 120) (46, 204, 113, 255);
          img = drawRows 10 0 (\<lambda>i. 200 + i * 50) (height - 150)
                  (\<lambda>y. (100, y, width - 100, y + 30)) (52, 152, 219, 255) img
      in img)"

definition createSuccessVisualization ::
  "env \<Rightarrow> path \<Rightarrow> string \<Rightarrow> string \<Rightarrow> state \<Rightarrow> error option \<times> state" where
  "createSuccessVisualization e outputPath url contentType s =
     saveImage e successImage outputPath s"

definition errorImage :: image where
  "errorImage =
     (let width = 1024; height = 768;
          img = image_NewRGBA (0, 0, width, height);
          img = draw_Draw img (bounds img) (245, 230, 230, 255);
          img = draw_Draw img (0, 0, width, 150) (231, 76, 60, 255);
          img = draw_Draw img (50, 250, width - 50, 350) (192, 57, 43, 255)
      in img)"

definition createErrorImage ::
  "env \<Rightarrow> path \<Rightarrow> string \<Rightarrow> string \<Rightarrow> state \<Rightarrow> error option \<times> state" where
  "createErrorImage e outputPath title detail s = saveImage e errorImage outputPath s"

section \<open>The capture chain for pages (unnamed/part_000)\<close>

definition captureWithWkhtmltoimage ::
  "env \<Rightarrow> string \<Rightarrow> path \<Rightarrow> state \<Rightarrow> error option \<times> state" where
  "captureWithWkhtmltoimage e url outputPath s =
     (case runCmd e [''wkhtmltoimage'', ''--quiet'', url, outputPath]
             outputPath (formatOfExt outputPath) s of
        (ok, s1) \<Rightarrow> (if ok then None else Some WkhtmltoimageFailed, s1))"

definition captureWithChrome ::
  "env \<Rightarrow> string \<Rightarrow> path \<Rightarrow> state \<Rightarrow> error option \<times> state" where
  "captureWithChrome e url outputPath s =
     (case runCmd e [''google-chrome'', ''--headless'', ''--disable-gpu'', ''--no-sandbox'',
                     ''--screenshot='' @ outputPath, ''--window-size=1024,768'', url]
             outputPath PNG s of
        (ok, s1) \<Rightarrow> (if ok then None else Some ChromeFailed, s1))"

definition captureWithChromium ::
  "env \<Rightarrow> string \<Rightarrow> path \<Rightarrow> state \<Rightarrow> error option \<times> state" where
  "captureWithChromium e url outputPath s =
     (case runCmd e [''chromium'', ''--headless'', ''--disable-gpu'', ''--no-sandbox'',
                     ''--screenshot='' @ outputPath, ''--window-size=1024,768'', url]
             outputPath PNG s of
        (ok, s1) \<Rightarrow> (if ok then None else Some ChromiumFailed, s1))"

text \<open>
  \<^verbatim>\<open>captureWithPageRender\<close> sends the request and looks at the status and the
  headers only; the body is closed unread.
\<close>

definition captureWithPageRender ::
  "env \<Rightarrow> string \<Rightarrow> path \<Rightarrow> state \<Rightarrow> error option \<times> state" where
  "captureWithPageRender e url outputPath s =
     (case httpGet e url of
        RequestError msg \<Rightarrow> createErrorImage e outputPath ''Request failed'' msg s
      | DoError msg \<Rightarrow>
          createErrorImage e outputPath ''Connection failed'' msg
            (s\<lparr>trace := trace s @ [HttpGet url]\<rparr>)
      | Resp resp \<Rightarrow>
          (let s1 = s\<lparr>trace := trace s @ [HttpGet url]\<rparr>;
               contentType = ContentType resp
           in if StatusCode resp = 200 then
                (if strings_Contains contentType ''pdf''
                 then createPDFVisualization e outputPath url (ContentLengthHeader resp) s1
                 else if strings_Contains contentType ''html''
                 then createHTMLVisualization e outputPath url (ContentLength resp) s1
                 else createSuccessVisualization e outputPath url contentType s1)
              else createErrorImage e outputPath (''HTTP '' @ showInt (StatusCode resp)) url s1))"

text \<open>
  \<^verbatim>\<open>Capture\<close>, one definition per \<^verbatim>\<open>if _, err := exec.LookPath(...)\<close> block, each
  falling through to the next.
\<close>

definition CaptureFromChromium ::
  "env \<Rightarrow> string \<Rightarrow> path \<Rightarrow> state \<Rightarrow> error option \<times> state" where
  "CaptureFromChromium e url outputPath s =
     (if LookPath e ''chromium'' then
        (case captureWithChromium e url outputPath s of
           (None, s1) \<Rightarrow> (None, s1)
         | (Some err, s1) \<Rightarrow> captureWithPageRender e url outputPath s1)
      else captureWithPageRender e url outputPath s)"

definition CaptureFromChrome ::
  "env \<Rightarrow> string \<Rightarrow> path \<Rightarrow> state \<Rightarrow> error option \<times> state" where
  "CaptureFromChrome e url outputPath s =
     (if LookPath e ''google-chrome'' then
        (case captureWithChrome e url outputPath s of
           (None, s1) \<Rightarrow> (None, s1)
         | (Some err, s1) \<Rightarrow> CaptureFromChromium e url outputPath s1)
      else CaptureFromChromium e url outputPath s)"

definition Capture :: "env \<Rightarrow> string \<Rightarrow> path \<Rightarrow> state \<Rightarrow> error option \<times> state" where
  "Capture e url outputPath s =
     (if LookPath e ''wkhtmltoimage'' then
        (case captureWithWkhtmltoimage e url outputPath s of
           (None, s1) \<Rightarrow> (None, s1)
         | (Some err, s1) \<Rightarrow> CaptureFromChrome e url outputPath s1)
      else CaptureFromChrome e url outputPath s)"

text \<open>
  In the specification's words: a strategy is a name with an availability probe (is
  the executable on the path) and an execution; the chain walks the ordered list, skips
  a strategy that is unavailable, stops at the first one that succeeds, proceeds past
  one that fails, and ends in the raw fetch with the synthetic render.
\<close>

type_synonym strategy = "string \<times> (env \<Rightarrow> string \<Rightarrow> path \<Rightarrow> state \<Rightarrow> error option \<times> state)"

definition rendererStrategies :: "strategy list" where
  "rendererStrategies =
     [(''wkhtmltoimage'', captureWithWkhtmltoimage),
      (''google-chrome'', captureWithChrome),
      (''chromium'', captureWithChromium)]"

fun strategyChain ::
  "env \<Rightarrow> strategy list \<Rightarrow> string \<Rightarrow> path \<Rightarrow> state \<Rightarrow> error option \<times> state" where
  "strategyChain e [] url outputPath s = captureWithPageRender e url outputPath s"
| "strategyChain e ((name, execute) # rest) url outputPath s =
     (if LookPath e name then
        (case execute e url outputPath s of
           (None, s1) \<Rightarrow> (None, s1)
         | (Some err, s1) \<Rightarrow> strategyChain e rest url outputPath s1)
      else strategyChain e rest url outputPath s)"

section \<open>The PDF chain (unnamed/part_000)\<close>

definition capturePDFWithPdftoppm ::
  "env \<Rightarrow> path \<Rightarrow> path \<Rightarrow> state \<Rightarrow> error option \<times> state" where
  "capturePDFWithPdftoppm e pdfPath outputPath s =
     (let tempPPM = strings_TrimSuffix outputPath ''.png'' @ ''.ppm''
      in case runCmd e [''pdftoppm'', ''-png'', ''-f'', ''1'', ''-l'', ''1'', ''-singlefile'',
                        pdfPath, strings_TrimSuffix outputPath ''.png'']
                (strings_TrimSuffix outputPath ''.png'' @ ''.png'') PNG s of
           (ok, s1) \<Rightarrow> (if ok then None else Some PdftoppmFailed, os_Remove tempPPM s1))"

definition capturePDFWithImageMagick ::
  "env \<Rightarrow> path \<Rightarrow> path \<Rightarrow> state \<Rightarrow> error option \<times> state" where
  "capturePDFWithImageMagick e pdfPath outputPath s =
     (case runCmd e [''convert'', ''-density'', ''150'', ''-quality'', ''85'', pdfPath @ ''[0]'',
                     ''-resize'', ''1024x768'', outputPath]
             outputPath (formatOfExt outputPath) s of
        (ok, s1) \<Rightarrow> (if ok then None else Some ImagemagickFailed, s1))"

definition capturePDFWithPdfimages ::
  "env \<Rightarrow> path \<Rightarrow> path \<Rightarrow> state \<Rightarrow> error option \<times> state" where
  "capturePDFWithPdfimages e pdfPath outputPath s =
     (let tempDir = filepath_Dir outputPath;
          tempBase = filepath_Join tempDir ''.pdfimage'';
          firstImage = tempBase @ ''-000.png''
      in case runCmd e [''pdfimages'', ''-png'', ''-f'', ''1'', ''-l'', ''1'', pdfPath, tempBase]
                firstImage PNG s of
           (ok, s1) \<Rightarrow>
             if \<not> ok then (Some PdfimagesFailed, s1)
             else if files s1 firstImage \<noteq> None then
               (case os_Rename e firstImage outputPath s1 of
                  (renamed, s2) \<Rightarrow> (if renamed then None else Some MoveFailed, s2))
             else (Some NoImagesExtracted, s1))"

text \<open>
  \<^verbatim>\<open>CapturePDF\<close>. \<^verbatim>\<open>io.Copy\<close> reads the body stream to its end and writes what it
  delivers to the temporary file; it returns an error when the stream ends with one.
  \<^verbatim>\<open>defer os.Remove(tempPDF)\<close> is registered after the copy has succeeded, so it
  runs on the returns below it.
\<close>

definition CapturePDF ::
  "env \<Rightarrow> string \<Rightarrow> path \<Rightarrow> path \<Rightarrow> state \<Rightarrow> error option \<times> state" where
  "CapturePDF e url outputPath tempDir s =
     (if \<not> mkdirOk e tempDir then (Some TempDirFailed, s)
      else
        (case httpGet e url of
           RequestError msg \<Rightarrow> createErrorImage e outputPath ''Request failed'' msg s
         | DoError msg \<Rightarrow>
             createErrorImage e outputPath ''Download failed'' msg
               (s\<lparr>trace := trace s @ [HttpGet url]\<rparr>)
         | Resp resp \<Rightarrow>
             (let s0 = s\<lparr>trace := trace s @ [HttpGet url]\<rparr>
              in if StatusCode resp \<noteq> 200
                 then createErrorImage e outputPath (''HTTP '' @ showInt (StatusCode resp)) url s0
                 else
                   (let tempPDF = filepath_Join tempDir ''temp.pdf''
                    in if \<not> createOk e tempPDF then (Some TempPDFCreateFailed, s0)
                       else
                         (let s1 = \<lparr>files = (files s0)(tempPDF \<mapsto> Data Unknown (Body resp)),
                                    trace = trace s0 @ [BodyRead (length (Body resp))]\<rparr>
                          in if BodyErr resp then (Some TempPDFSaveFailed, s1)
                             else
                               (case (if LookPath e ''pdftoppm''
                                      then capturePDFWithPdftoppm e tempPDF outputPath s1
                                      else if LookPath e ''convert''
                                      then capturePDFWithImageMagick e tempPDF outputPath s1
                                      else if LookPath e ''pdfimages''
                                      then capturePDFWithPdfimages e tempPDF outputPath s1
                                      else createPDFVisualization e outputPath url
                                             (ContentLengthHeader resp) s1) of
                                  (err, s2) \<Rightarrow> (err, os_Remove tempPDF s2)))))))"

section \<open>fetchContent (dorkergoodnew/dorker.go)\<close>

text \<open>
  \<^verbatim>\<open>io.ReadAll(io.LimitReader(resp.Body, 1024*100))\<close> consumes the stream up to the
  limit; it fails when the stream ends with an error before the limit is reached, and
  \<open>fetchContent\<close> then returns the empty string.
\<close>

definition fetchLimit :: nat where
  "fetchLimit = 1024 * 100"

definition fetchContent :: "env \<Rightarrow> string \<Rightarrow> state \<Rightarrow> string \<times> state" where
  "fetchContent e url s =
     (case httpGet e url of
        RequestError msg \<Rightarrow> ([], s)
      | DoError msg \<Rightarrow> ([], s\<lparr>trace := trace s @ [HttpGet url]\<rparr>)
      | Resp resp \<Rightarrow>
          (let s1 = s\<lparr>trace := trace s @ [HttpGet url,
                                             BodyRead (min fetchLimit (length (Body resp)))]\<rparr>
           in if BodyErr resp \<and> length (Body resp) < fetchLimit then ([], s1)
              else (take fetchLimit (Body resp), s1)))"

section \<open>The orchestrator (main.go)\<close>

record Result =
  URL :: string
  Title :: string
  Snippet :: string
  Content :: string
  MatchingLine :: string
  Keywords :: "string list"

text \<open>The two lines that name a target's artifact, shared by both batch functions.\<close>

definition targetPath :: "path \<Rightarrow> string \<Rightarrow> path" where
  "targetPath outputDir url = filepath_Join outputDir (sanitizeFilename url @ ''.png'')"

text \<open>
  The loop bodies: a failed capture is reported and the loop continues with the next
  result; the optimizer's error is reported only. Console output is not modelled.
\<close>

definition captureOne :: "env \<Rightarrow> path \<Rightarrow> Result \<Rightarrow> state \<Rightarrow> state" where
  "captureOne e outputDir result s =
     (let filePath = targetPath outputDir (URL result)
      in case Capture e (URL result) filePath s of
           (Some err, s1) \<Rightarrow> s1
         | (None, s1) \<Rightarrow> snd (optimizeImageSize e filePath 120 s1))"

fun captureScreenshots :: "env \<Rightarrow> Result list \<Rightarrow> path \<Rightarrow> state \<Rightarrow> state" where
  "captureScreenshots e [] outputDir s = s"
| "captureScreenshots e (result # results) outputDir s =
     captureScreenshots e results outputDir (captureOne e outputDir result s)"

definition capturePDFOne :: "env \<Rightarrow> path \<Rightarrow> Result \<Rightarrow> state \<Rightarrow> state" where
  "capturePDFOne e outputDir result s =
     (let filePath = targetPath outputDir (URL result)
      in case CapturePDF e (URL result) filePath (filepath_Join outputDir ''.temp'') s of
           (Some err, s1) \<Rightarrow> s1
         | (None, s1) \<Rightarrow> snd (optimizeImageSize e filePath 120 s1))"

fun captureScreenshotsWithPDF :: "env \<Rightarrow> Result list \<Rightarrow> path \<Rightarrow> state \<Rightarrow> state" where
  "captureScreenshotsWithPDF e [] outputDir s = s"
| "captureScreenshotsWithPDF e (result # results) outputDir s =
     captureScreenshotsWithPDF e results outputDir (capturePDFOne e outputDir result s)"

section \<open>How long the capture chain waits for its processes\<close>

text \<open>
  The receiver of the capture methods, and how long a started process runs before it
  exits: a number of seconds, or \<open>None\<close> for a process that never exits.
  \<^verbatim>\<open>cmd.Run()\<close> waits for the process to exit. The definitions below are the page
  chain once more, returning with the result the seconds spent inside
  \<^verbatim>\<open>cmd.Run()\<close>, or \<open>None\<close> when the call never returns. The receiver is passed as
  in the source; no strategy reads its \<open>timeout\<close>.
\<close>

record Screenshotter =
  timeout :: int
  verbose :: bool

definition NewScreenshotter :: "int \<Rightarrow> bool \<Rightarrow> Screenshotter" where
  "NewScreenshotter t v = \<lparr>timeout = t, verbose = v\<rparr>"

type_synonym running = "string list \<Rightarrow> nat option"

definition cmd_Run_timed ::
  "running \<Rightarrow> env \<Rightarrow> string list \<Rightarrow> path \<Rightarrow> format \<Rightarrow> state \<Rightarrow> (nat \<times> bool \<times> state) option" where
  "cmd_Run_timed rt e argv out fm s =
     (if \<not> LookPath e (hd argv) then Some (0, runCmd e argv out fm s)
      else (case rt argv of
              None \<Rightarrow> None
            | Some seconds \<Rightarrow> Some (seconds, runCmd e argv out fm s)))"

definition captureWithWkhtmltoimage_timed ::
  "Screenshotter \<Rightarrow> running \<Rightarrow> env \<Rightarrow> string \<Rightarrow> path \<Rightarrow> state
     \<Rightarrow> (nat \<times> error option \<times> state) option" where
  "captureWithWkhtmltoimage_timed sc rt e url outputPath s =
     (case cmd_Run_timed rt e [''wkhtmltoimage'', ''--quiet'', url, outputPath]
             outputPath (formatOfExt outputPath) s of
        None \<Rightarrow> None
      | Some (seconds, ok, s1) \<Rightarrow>
          Some (seconds, if ok then None else Some WkhtmltoimageFailed, s1))"

definition captureWithChrome_timed ::
  "Screenshotter \<Rightarrow> running \<Rightarrow> env \<Rightarrow> string \<Rightarrow> path \<Rightarrow> state
     \<Rightarrow> (nat \<times> error option \<times> state) option" where
  "captureWithChrome_timed sc rt e url outputPath s =
     (case cmd_Run_timed rt e
             [''google-chrome'', ''--headless'', ''--disable-gpu'', ''--no-sandbox'',
              ''--screenshot='' @ outputPath, ''--window-size=1024,768'', url]
             outputPath PNG s of
        None \<Rightarrow> None
      | Some (seconds, ok, s1) \<Rightarrow> Some (seconds, if ok then None else Some ChromeFailed, s1))"

definition captureWithChromium_timed ::
  "Screenshotter \<Rightarrow> running \<Rightarrow> env \<Rightarrow> string \<Rightarrow> path \<Rightarrow> state
     \<Rightarrow> (nat \<times> error option \<times> state) option" where
  "captureWithChromium_timed sc rt e url outputPath s =
     (case cmd_Run_timed rt e
             [''chromium'', ''--headless'', ''--disable-gpu'', ''--no-sandbox'',
              ''--screenshot='' @ outputPath, ''--window-size=1024,768'', url]
             outputPath PNG s of
        None \<Rightarrow> None
      | Some (seconds, ok, s1) \<Rightarrow> Some (seconds, if ok then None else Some ChromiumFailed, s1))"

text \<open>A later step's seconds are added to those already spent.\<close>

definition afterSeconds ::
  "nat \<Rightarrow> (nat \<times> error option \<times> state) option \<Rightarrow> (nat \<times> error option \<times> state) option" where
  "afterSeconds spent r = (case r of None \<Rightarrow> None | Some (seconds, res) \<Rightarrow> Some (spent + seconds, res))"

definition CaptureFromChromium_timed ::
  "Screenshotter \<Rightarrow> running \<Rightarrow> env \<Rightarrow> string \<Rightarrow> path \<Rightarrow> state
     \<Rightarrow> (nat \<times> error option \<times> state) option" where
  "CaptureFromChromium_timed sc rt e url outputPath s =
     (if LookPath e ''chromium'' then
        (case captureWithChromium_timed sc rt e url outputPath s of
           None \<Rightarrow> None
         | Some (seconds, None, s1) \<Rightarrow> Some (seconds, None, s1)
         | Some (seconds, Some err, s1) \<Rightarrow>
             Some (seconds, captureWithPageRender e url outputPath s1))
      else Some (0, captureWithPageRender e url outputPath s))"

definition CaptureFromChrome_timed ::
  "Screenshotter \<Rightarrow> running \<Rightarrow> env \<Rightarrow> string \<Rightarrow> path \<Rightarrow> state
     \<Rightarrow> (nat \<times> error option \<times> state) option" where
  "CaptureFromChrome_timed sc rt e url outputPath s =
     (if LookPath e ''google-chrome'' then
        (case captureWithChrome_timed sc rt e url outputPath s of
           None \<Rightarrow> None
         | Some (seconds, None, s1) \<Rightarrow> Some (seconds, None, s1)
         | Some (seconds, Some err, s1) \<Rightarrow>
             afterSeconds seconds (CaptureFromChromium_timed sc rt e url outputPath s1))
      else CaptureFromChromium_timed sc rt e url outputPath s)"

definition Capture_timed ::
  "Screenshotter \<Rightarrow> running \<Rightarrow> env \<Rightarrow> string \<Rightarrow> path \<Rightarrow> state
     \<Rightarrow> (nat \<times> error option \<times> state) option" where
  "Capture_timed sc rt e url outputPath s =
     (if LookPath e ''wkhtmltoimage'' then
        (case captureWithWkhtmltoimage_timed sc rt e url outputPath s of
           None \<Rightarrow> None
         | Some (seconds, None, s1) \<Rightarrow> Some (seconds, None, s1)
         | Some (seconds, Some err, s1) \<Rightarrow>
             afterSeconds seconds (CaptureFromChrome_timed sc rt e url outputPath s1))
      else CaptureFromChrome_timed sc rt e url outputPath s)"

section \<open>The categories of the synthetic generator\<close>

text \<open>
  The generator's four categories, each with its fixed image, and the category of an
  outcome: a request that cannot be built or sent and every answer whose status is not
  200 are errors; an answer with status 200 is classed by its content type.
\<close>

datatype category = SuccessCategory | HTMLCategory | PDFCategory | ErrorCategory

definition placeholder :: "category \<Rightarrow> image" where
  "placeholder c =
     (case c of SuccessCategory \<Rightarrow> successImage | HTMLCategory \<Rightarrow> htmlImage
      | PDFCategory \<Rightarrow> pdfImage | ErrorCategory \<Rightarrow> errorImage)"





section \<open>Concrete machines\<close>

text \<open>
  Closed environments and states on which the theorems below are exercised: a machine
  on which every file-system call succeeds and the JPEG encoder emits 40000 bytes, with
  the executables, the behaviour of the processes and the network as given.
\<close>

definition machine ::
  "(string \<Rightarrow> bool) \<Rightarrow> (string list \<Rightarrow> filesystem \<Rightarrow> bool \<times> string option) \<Rightarrow>
   (string \<Rightarrow> http_result) \<Rightarrow> env" where
  "machine lp run http =
     \<lparr>LookPath = lp, Run = run, httpGet = http, jpegLen = (\<lambda>q img. 40000),
      mkdirOk = (\<lambda>p. True), createOk = (\<lambda>p. True), writeOk = (\<lambda>p. True),
      renameOk = (\<lambda>p q. True)\<rparr>"

definition noSite :: "string \<Rightarrow> http_result" where
  "noSite url = DoError ''no route to host''"

definition convertTo :: "nat \<Rightarrow> env" where
  "convertTo n = machine (\<lambda>name. name = ''convert'')
                   (\<lambda>argv fs. (True, Some (replicate n (CHR ''x'')))) noSite"

definition bigShot :: state where
  "bigShot = \<lparr>files = [''shot.png'' \<mapsto> Data PNG (replicate 3000 (CHR ''x''))], trace = []\<rparr>"

definition emptyDisk :: state where
  "emptyDisk = \<lparr>files = Map.empty, trace = []\<rparr>"

definition noTools :: "(string \<Rightarrow> http_result) \<Rightarrow> env" where
  "noTools http = machine (\<lambda>name. False) (\<lambda>argv fs. (False, None)) http"

text \<open>wkhtmltoimage is missing, google-chrome crashes, chromium takes the screenshot.\<close>

definition chromiumOnly :: env where
  "chromiumOnly =
     machine (\<lambda>name. name = ''google-chrome'' \<or> name = ''chromium'')
       (\<lambda>argv fs. if hd argv = ''chromium'' then (True, Some ''PNGDATA'') else (False, None))
       noSite"

text \<open>Every renderer is installed and every process exits with a non-zero status.\<close>

definition allCrash :: env where
  "allCrash = machine (\<lambda>name. True) (\<lambda>argv fs. (False, None)) noSite"

definition wkWorks :: env where
  "wkWorks = machine (\<lambda>name. True) (\<lambda>argv fs. (True, Some ''PNGDATA'')) noSite"

definition answers :: "int \<Rightarrow> string \<Rightarrow> string \<Rightarrow> http_result" where
  "answers status contentType url =
     Resp \<lparr>StatusCode = status, ContentType = contentType, ContentLengthHeader = ''4'',
           ContentLength = 4, Body = ''%PDF'', BodyErr = False\<rparr>"

definition target :: "string \<Rightarrow> Result" where
  "target url = \<lparr>URL = url, Title = [], Snippet = [], Content = [], MatchingLine = [],
                  Keywords = []\<rparr>"

text \<open>A site on which one page is missing and every other page is an HTML page.\<close>

definition onePageMissing :: "string \<Rightarrow> http_result" where
  "onePageMissing url =
     (if url = ''https://example.com/a?b'' then answers 404 ''text/html'' url
      else answers 200 ''text/html'' url)"

definition bigCapture :: state where
  "bigCapture =
     \<lparr>files = [''shots/example.com_a_b.png'' \<mapsto> Data PNG (replicate 3000 (CHR ''x''))],
      trace = []\<rparr>"

text \<open>
  pdftoppm and convert are installed; pdftoppm exits with a non-zero status (the
  document is damaged), convert would render it.
\<close>

definition pdftoppmFails :: env where
  "pdftoppmFails =
     machine (\<lambda>name. name = ''pdftoppm'' \<or> name = ''convert'')
       (\<lambda>argv fs. if hd argv = ''pdftoppm'' then (False, None) else (True, Some ''PNGDATA''))
       (answers 200 ''application/pdf'')"

text \<open>The server answers 200 and the connection drops after three bytes of the body.\<close>

definition droppedDownload :: "string \<Rightarrow> http_result" where
  "droppedDownload url =
     Resp \<lparr>StatusCode = 200, ContentType = ''application/pdf'', ContentLengthHeader = ''4000'',
           ContentLength = 4000, Body = ''%PD'', BodyErr = True\<rparr>"

text \<open>The server answers 200 with a body of 200000 bytes.\<close>

definition largeDocument :: "string \<Rightarrow> http_result" where
  "largeDocument url =
     Resp \<lparr>StatusCode = 200, ContentType = ''application/pdf'', ContentLengthHeader = ''200000'',
           ContentLength = 200000, Body = replicate 200000 (CHR ''x''), BodyErr = False\<rparr>"

text \<open>
  wkhtmltoimage and google-chrome are installed; wkhtmltoimage fails, google-chrome
  takes the screenshot. In one run wkhtmltoimage needs an hour to fail, in the other it
  never exits; google-chrome needs two seconds.
\<close>

definition wkFails :: env where
  "wkFails =
     machine (\<lambda>name. name = ''wkhtmltoimage'' \<or> name = ''google-chrome'')
       (\<lambda>argv fs. if hd argv = ''wkhtmltoimage'' then (False, None) else (True, Some ''PNGDATA''))
       noSite"

definition slowWk :: running where
  "slowWk argv = (if hd argv = ''wkhtmltoimage'' then Some 3600 else Some 2)"

definition hungWk :: running where
  "hungWk argv = (if hd argv = ''wkhtmltoimage'' then None else Some 2)"

section \<open>Properties\<close>

subsection \<open>The size optimizer\<close>

lemma tryConvert_rejected:
  assumes "files s p = Some f" and "tmp \<noteq> p"
    and "\<not> candidateFits e argv tmp mb s"
  shows "files (snd (tryConvert e argv tmp p mb s)) p = Some f"
    and "\<not> fst (tryConvert e argv tmp p mb s)"
  using assms
  by (auto simp: tryConvert_def candidateFits_def runCmd_def getFileSize_def os_Remove_def
      split: prod.splits if_splits option.splits sum.splits)

lemma tryConvert_result:
  assumes "files s p = Some f" and "tmp \<noteq> p"
    and "files (snd (tryConvert e argv tmp p mb s)) p = Some g"
  shows "g = f \<or> fileSize e g < mb"
  using assms
  by (auto simp: tryConvert_def runCmd_def getFileSize_def os_Remove_def os_Rename_def
      split: prod.splits if_splits option.splits sum.splits)

lemma tryConvert_rejected_keeps:
  assumes "files s p = Some f" and "tmp \<noteq> p" and "\<not> fst (tryConvert e argv tmp p mb s)"
  shows "files (snd (tryConvert e argv tmp p mb s)) p = Some f"
  using assms
  by (auto simp: tryConvert_def runCmd_def getFileSize_def os_Remove_def os_Rename_def
      split: prod.splits if_splits option.splits sum.splits)

text \<open>
  Claim C3. For an artifact that exists, neither optimizer returns an error; and when
  no recompression candidate fits the budget (the tool is not on the path, it fails,
  it leaves no candidate, or the candidate is not below the budget), the artifact on
  disk is the original, unchanged. For \<open>compressImage\<close> the second candidate is the
  one generated after the first block has run.
\<close>

theorem optimizer_budget_miss_is_not_an_error:
  assumes "files s p = Some f"
  shows "fst (optimizeImageSize e p k s) = None \<and>
         fst (compressImage e p k s) = None \<and>
         (\<not> candidateFits e (optimizeCmd p) (p @ ''.tmp.jpg'') (maxSizeBytes k) s \<longrightarrow>
            files (snd (optimizeImageSize e p k s)) p = Some f) \<and>
         (\<not> candidateFits e (compressCmd1 p) (p @ ''.tmp.jpg'') (maxSizeBytes k) s \<and>
          \<not> candidateFits e (compressCmd2 p) (p @ ''.tmp2.jpg'') (maxSizeBytes k)
               (snd (compressFirst e p (maxSizeBytes k) s)) \<longrightarrow>
            files (snd (compressImage e p k s)) p = Some f)"
proof -
  have ne1: "p @ ''.tmp.jpg'' \<noteq> p" and ne2: "p @ ''.tmp2.jpg'' \<noteq> p"
    by simp_all
  have a: "fst (optimizeImageSize e p k s) = None"
    using assms by (simp add: optimizeImageSize_def getFileSize_def)
  have b: "fst (compressImage e p k s) = None"
    using assms by (simp add: compressImage_def getFileSize_def case_prod_beta)
  have c: "files (snd (optimizeImageSize e p k s)) p = Some f"
    if "\<not> candidateFits e (optimizeCmd p) (p @ ''.tmp.jpg'') (maxSizeBytes k) s"
    using assms tryConvert_rejected(1)[OF assms ne1 that]
    by (simp add: optimizeImageSize_def getFileSize_def)
  have d: "files (snd (compressImage e p k s)) p = Some f"
    if n1: "\<not> candidateFits e (compressCmd1 p) (p @ ''.tmp.jpg'') (maxSizeBytes k) s"
      and n2: "\<not> candidateFits e (compressCmd2 p) (p @ ''.tmp2.jpg'') (maxSizeBytes k)
               (snd (compressFirst e p (maxSizeBytes k) s))"
  proof -
    let ?s1 = "snd (compressFirst e p (maxSizeBytes k) s)"
    have r1: "\<not> fst (compressFirst e p (maxSizeBytes k) s)"
      using tryConvert_rejected(2)[OF assms ne1 n1] by (simp add: compressFirst_def)
    have k1: "files ?s1 p = Some f"
      using tryConvert_rejected(1)[OF assms ne1 n1] assms by (simp add: compressFirst_def)
    have k2: "files (snd (compressSecond e p (maxSizeBytes k) ?s1)) p = Some f"
      using tryConvert_rejected(1)[OF k1 ne2 n2] k1 by (simp add: compressSecond_def)
    show ?thesis
      using assms r1 k1 k2
      by (simp add: compressImage_def getFileSize_def case_prod_beta)
  qed
  from a b c d show ?thesis by blast
qed

theorem optimizer_budget_miss_witness:
  "files bigShot ''shot.png'' = Some (Data PNG (replicate 3000 (CHR ''x''))) \<and>
   \<not> candidateFits (convertTo 2000) (optimizeCmd ''shot.png'') (''shot.png'' @ ''.tmp.jpg'')
        (maxSizeBytes 1) bigShot \<and>
   fst (optimizeImageSize (convertTo 2000) ''shot.png'' 1 bigShot) = None \<and>
   files (snd (optimizeImageSize (convertTo 2000) ''shot.png'' 1 bigShot)) ''shot.png''
     = Some (Data PNG (replicate 3000 (CHR ''x''))) \<and>
   fst (compressImage (convertTo 2000) ''shot.png'' 1 bigShot) = None \<and>
   files (snd (compressImage (convertTo 2000) ''shot.png'' 1 bigShot)) ''shot.png''
     = Some (Data PNG (replicate 3000 (CHR ''x'')))"
proof -
  let ?e = "convertTo 2000"
  have h: "files bigShot ''shot.png'' = Some (Data PNG (replicate 3000 (CHR ''x'')))"
    by (simp add: bigShot_def)
  have n: "\<not> candidateFits ?e (optimizeCmd ''shot.png'') (''shot.png'' @ ''.tmp.jpg'')
        (maxSizeBytes 1) bigShot"
    by (simp add: candidateFits_def runCmd_def optimizeCmd_def convertTo_def machine_def
        bigShot_def fileSize_def maxSizeBytes_def)
  have n1: "\<not> candidateFits ?e (compressCmd1 ''shot.png'') (''shot.png'' @ ''.tmp.jpg'')
        (maxSizeBytes 1) bigShot"
    by (simp add: candidateFits_def runCmd_def compressCmd1_def convertTo_def machine_def
        bigShot_def fileSize_def maxSizeBytes_def)
  have n2: "\<not> candidateFits ?e (compressCmd2 ''shot.png'') (''shot.png'' @ ''.tmp2.jpg'')
        (maxSizeBytes 1) (snd (compressFirst ?e ''shot.png'' (maxSizeBytes 1) bigShot))"
    by (simp add: candidateFits_def runCmd_def compressCmd2_def convertTo_def machine_def
        fileSize_def maxSizeBytes_def)
  show ?thesis
    using h n n1 n2 optimizer_budget_miss_is_not_an_error [OF h, of ?e 1]
    by simp
qed

text \<open>
  Claim C5. Whatever file stands at the artifact's path after an optimizer has run is
  either the original or a candidate strictly below the budget, and a candidate is
  only ever accepted when the original is strictly above the budget: the artifact
  never grows.
\<close>

theorem optimizer_never_grows:
  assumes "files s p = Some f"
  shows "(\<forall>g. files (snd (optimizeImageSize e p k s)) p = Some g \<longrightarrow>
            g = f \<or> (fileSize e g < maxSizeBytes k \<and> maxSizeBytes k < fileSize e f)) \<and>
         (\<forall>g. files (snd (compressImage e p k s)) p = Some g \<longrightarrow>
            g = f \<or> (fileSize e g < maxSizeBytes k \<and> maxSizeBytes k < fileSize e f))"
proof -
  have ne1: "p @ ''.tmp.jpg'' \<noteq> p" and ne2: "p @ ''.tmp2.jpg'' \<noteq> p"
    by simp_all
  have a: "g = f \<or> (fileSize e g < maxSizeBytes k \<and> maxSizeBytes k < fileSize e f)"
    if "files (snd (optimizeImageSize e p k s)) p = Some g" for g
  proof (cases "fileSize e f \<le> maxSizeBytes k")
    case True
    with assms that show ?thesis by (simp add: optimizeImageSize_def getFileSize_def)
  next
    case False
    with assms that
    have "files (snd (tryConvert e (optimizeCmd p) (p @ ''.tmp.jpg'') p (maxSizeBytes k) s)) p = Some g"
      by (simp add: optimizeImageSize_def getFileSize_def)
    from tryConvert_result[OF assms ne1 this] False show ?thesis by auto
  qed
  have b: "g = f \<or> (fileSize e g < maxSizeBytes k \<and> maxSizeBytes k < fileSize e f)"
    if g: "files (snd (compressImage e p k s)) p = Some g" for g
  proof (cases "fileSize e f \<le> maxSizeBytes k")
    case True
    with assms that show ?thesis by (simp add: compressImage_def getFileSize_def)
  next
    case False
    let ?r1 = "compressFirst e p (maxSizeBytes k) s"
    show ?thesis
    proof (cases "fst ?r1")
      case True
      with assms g False have "files (snd ?r1) p = Some g"
        by (simp add: compressImage_def getFileSize_def case_prod_beta)
      then have "files (snd (tryConvert e (compressCmd1 p) (p @ ''.tmp.jpg'') p (maxSizeBytes k) s)) p = Some g"
        using True by (simp add: compressFirst_def split: if_splits)
      from tryConvert_result[OF assms ne1 this] False show ?thesis by auto
    next
      case rej: False
      have k1: "files (snd ?r1) p = Some f"
        using rej assms tryConvert_rejected_keeps[OF assms ne1, of e "compressCmd1 p" "maxSizeBytes k"]
        by (simp add: compressFirst_def split: if_splits)
      from assms g False rej
      have g2: "files (snd (compressSecond e p (maxSizeBytes k) (snd ?r1))) p = Some g"
        by (simp add: compressImage_def getFileSize_def case_prod_beta)
      show ?thesis
      proof (cases "LookPath e ''convert''")
        case True
        with g2 have "files (snd (tryConvert e (compressCmd2 p) (p @ ''.tmp2.jpg'') p (maxSizeBytes k) (snd ?r1))) p = Some g"
          by (simp add: compressSecond_def)
        from tryConvert_result[OF k1 ne2 this] False show ?thesis by auto
      next
        case False
        with g2 k1 show ?thesis by (simp add: compressSecond_def)
      qed
    qed
  qed
  from a b show ?thesis by blast
qed

theorem optimizer_never_grows_witness:
  "files bigShot ''shot.png'' = Some (Data PNG (replicate 3000 (CHR ''x''))) \<and>
   files (snd (optimizeImageSize (convertTo 500) ''shot.png'' 1 bigShot)) ''shot.png''
     = Some (Data JPEG (replicate 500 (CHR ''x''))) \<and>
   files (snd (compressImage (convertTo 500) ''shot.png'' 1 bigShot)) ''shot.png''
     = Some (Data JPEG (replicate 500 (CHR ''x''))) \<and>
   fileSize (convertTo 500) (Data JPEG (replicate 500 (CHR ''x''))) < maxSizeBytes 1 \<and>
   maxSizeBytes 1 < fileSize (convertTo 500) (Data PNG (replicate 3000 (CHR ''x'')))"
proof -
  have h: "files bigShot ''shot.png'' = Some (Data PNG (replicate 3000 (CHR ''x'')))"
    by (simp add: bigShot_def)
  have r: "files (snd (optimizeImageSize (convertTo 500) ''shot.png'' 1 bigShot)) ''shot.png''
     = Some (Data JPEG (replicate 500 (CHR ''x'')))"
    by (simp add: optimizeImageSize_def getFileSize_def tryConvert_def runCmd_def optimizeCmd_def
        convertTo_def machine_def bigShot_def fileSize_def maxSizeBytes_def os_Rename_def
        os_Remove_def formatOfExt_def strings_HasSuffix_def)
  have r2: "files (snd (compressImage (convertTo 500) ''shot.png'' 1 bigShot)) ''shot.png''
     = Some (Data JPEG (replicate 500 (CHR ''x'')))"
    by (simp add: compressImage_def compressFirst_def getFileSize_def tryConvert_def runCmd_def
        compressCmd1_def convertTo_def machine_def bigShot_def fileSize_def maxSizeBytes_def
        os_Rename_def os_Remove_def formatOfExt_def strings_HasSuffix_def)
  have d: "Data JPEG (replicate 500 (CHR ''x'')) \<noteq> Data PNG (replicate 3000 (CHR ''x''))"
    by simp
  show ?thesis
    using h r r2 d optimizer_never_grows [OF h, of "convertTo 500" 1]
    by blast
qed

subsection \<open>The capture chain for pages\<close>

lemma chain_from_chromium:
  "CaptureFromChromium e url out s =
     strategyChain e [(''chromium'', captureWithChromium)] url out s"
  by (simp add: CaptureFromChromium_def split: prod.splits option.splits)

lemma chain_from_chrome:
  "CaptureFromChrome e url out s =
     strategyChain e [(''google-chrome'', captureWithChrome), (''chromium'', captureWithChromium)]
       url out s"
  by (simp add: CaptureFromChrome_def chain_from_chromium split: prod.splits option.splits)

lemma Capture_chain_eq:
  "Capture e url out s = strategyChain e rendererStrategies url out s"
  by (simp add: Capture_def rendererStrategies_def chain_from_chrome
      split: prod.splits option.splits)

lemma runCmd_fails:
  assumes "\<forall>argv fs. LookPath e (hd argv) \<longrightarrow> \<not> fst (Run e argv fs)"
  shows "\<not> fst (runCmd e argv out fm s)"
proof -
  have "LookPath e (hd argv) \<longrightarrow> \<not> fst (Run e argv (files s))"
    using assms by blast
  then show ?thesis
    by (auto simp: runCmd_def split: prod.splits)
qed

lemma renderer_fails:
  assumes "\<forall>argv fs. LookPath e (hd argv) \<longrightarrow> \<not> fst (Run e argv fs)"
  shows "fst (captureWithWkhtmltoimage e url out s) \<noteq> None"
    and "fst (captureWithChrome e url out s) \<noteq> None"
    and "fst (captureWithChromium e url out s) \<noteq> None"
  using runCmd_fails[OF assms]
  by (simp_all add: captureWithWkhtmltoimage_def captureWithChrome_def captureWithChromium_def
      case_prod_beta)

lemma chromium_fallback:
  assumes "\<forall>argv fs. LookPath e (hd argv) \<longrightarrow> \<not> fst (Run e argv fs)"
  shows "\<exists>s'. CaptureFromChromium e url out s = captureWithPageRender e url out s'"
  using renderer_fails(3)[OF assms, of url out s]
  by (auto simp: CaptureFromChromium_def split: prod.splits option.splits)

lemma chrome_fallback:
  assumes "\<forall>argv fs. LookPath e (hd argv) \<longrightarrow> \<not> fst (Run e argv fs)"
  shows "\<exists>s'. CaptureFromChrome e url out s = captureWithPageRender e url out s'"
  using renderer_fails(2)[OF assms, of url out s] chromium_fallback[OF assms]
  by (auto simp: CaptureFromChrome_def split: prod.splits option.splits)

lemma all_fail_fallback:
  assumes "\<forall>argv fs. LookPath e (hd argv) \<longrightarrow> \<not> fst (Run e argv fs)"
  shows "\<exists>s'. Capture e url out s = captureWithPageRender e url out s'"
  using renderer_fails(1)[OF assms, of url out s] chrome_fallback[OF assms]
  by (auto simp: Capture_def split: prod.splits option.splits)

text \<open>
  Claim C4. \<open>Capture\<close> is the strategy chain over wkhtmltoimage, google-chrome and
  chromium, in this order, ending in the raw fetch with the synthetic render: an
  executable that is not on the path is skipped, the first renderer that succeeds ends
  the chain, and a renderer that fails hands over to the next. In particular, with no
  renderer on the path the result is the raw fetch's; when every renderer that is on
  the path fails the result is still the raw fetch's, from the state the failed
  attempts left; and when
  wkhtmltoimage is present and succeeds, nothing else is started.
\<close>

theorem Capture_strategy_chain:
  "Capture e url out s = strategyChain e rendererStrategies url out s \<and>
   (\<not> LookPath e ''wkhtmltoimage'' \<and> \<not> LookPath e ''google-chrome'' \<and> \<not> LookPath e ''chromium''
      \<longrightarrow> Capture e url out s = captureWithPageRender e url out s) \<and>
   ((\<forall>argv fs. LookPath e (hd argv) \<longrightarrow> \<not> fst (Run e argv fs))
      \<longrightarrow> (\<exists>s'. Capture e url out s = captureWithPageRender e url out s')) \<and>
   (LookPath e ''wkhtmltoimage'' \<and> fst (Run e [''wkhtmltoimage'', ''--quiet'', url, out] (files s))
      \<longrightarrow> fst (Capture e url out s) = None \<and>
          trace (snd (Capture e url out s)) = trace s @ [Exec [''wkhtmltoimage'', ''--quiet'', url, out]])"
proof -
  have a: "Capture e url out s = captureWithPageRender e url out s"
    if "\<not> LookPath e ''wkhtmltoimage'' \<and> \<not> LookPath e ''google-chrome'' \<and> \<not> LookPath e ''chromium''"
    using that by (simp add: Capture_def CaptureFromChrome_def CaptureFromChromium_def)
  have b: "fst (Capture e url out s) = None \<and>
          trace (snd (Capture e url out s)) = trace s @ [Exec [''wkhtmltoimage'', ''--quiet'', url, out]]"
    if "LookPath e ''wkhtmltoimage'' \<and> fst (Run e [''wkhtmltoimage'', ''--quiet'', url, out] (files s))"
    using that
    by (auto simp: Capture_def captureWithWkhtmltoimage_def runCmd_def split: prod.splits)
  from Capture_chain_eq a b all_fail_fallback show ?thesis by blast
qed

theorem Capture_strategy_chain_witness:
  "Capture chromiumOnly ''http://a.example/'' ''shots/a.png'' emptyDisk =
     (None, \<lparr>files = [''shots/a.png'' \<mapsto> Data PNG ''PNGDATA''],
             trace = [Exec [''google-chrome'', ''--headless'', ''--disable-gpu'', ''--no-sandbox'',
                            ''--screenshot=shots/a.png'', ''--window-size=1024,768'', ''http://a.example/''],
                      Exec [''chromium'', ''--headless'', ''--disable-gpu'', ''--no-sandbox'',
                            ''--screenshot=shots/a.png'', ''--window-size=1024,768'', ''http://a.example/'']]\<rparr>) \<and>
   Capture (noTools noSite) ''http://a.example/'' ''shots/a.png'' emptyDisk =
     (None, \<lparr>files = [''shots/a.png'' \<mapsto> JpegOf 85 errorImage],
             trace = [HttpGet ''http://a.example/'']\<rparr>) \<and>
   trace (snd (Capture wkWorks ''http://a.example/'' ''shots/a.png'' emptyDisk)) =
     [Exec [''wkhtmltoimage'', ''--quiet'', ''http://a.example/'', ''shots/a.png'']] \<and>
   (\<exists>s'. Capture allCrash ''http://a.example/'' ''shots/a.png'' emptyDisk =
           captureWithPageRender allCrash ''http://a.example/'' ''shots/a.png'' s')"
proof -
  have h4: "\<forall>argv fs. LookPath allCrash (hd argv) \<longrightarrow> \<not> fst (Run allCrash argv fs)"
    by (simp add: allCrash_def machine_def)
  have w4: "\<exists>s'. Capture allCrash ''http://a.example/'' ''shots/a.png'' emptyDisk =
           captureWithPageRender allCrash ''http://a.example/'' ''shots/a.png'' s'"
    using Capture_strategy_chain [of allCrash "''http://a.example/''" "''shots/a.png''" emptyDisk] h4
    by blast
  have c1: "strategyChain chromiumOnly rendererStrategies ''http://a.example/'' ''shots/a.png'' emptyDisk =
     (None, \<lparr>files = [''shots/a.png'' \<mapsto> Data PNG ''PNGDATA''],
             trace = [Exec [''google-chrome'', ''--headless'', ''--disable-gpu'', ''--no-sandbox'',
                            ''--screenshot=shots/a.png'', ''--window-size=1024,768'', ''http://a.example/''],
                      Exec [''chromium'', ''--headless'', ''--disable-gpu'', ''--no-sandbox'',
                            ''--screenshot=shots/a.png'', ''--window-size=1024,768'', ''http://a.example/'']]\<rparr>)"
    by (simp add: rendererStrategies_def chromiumOnly_def machine_def emptyDisk_def
        captureWithChrome_def captureWithChromium_def runCmd_def)
  have c2: "captureWithPageRender (noTools noSite) ''http://a.example/'' ''shots/a.png'' emptyDisk =
     (None, \<lparr>files = [''shots/a.png'' \<mapsto> JpegOf 85 errorImage],
             trace = [HttpGet ''http://a.example/'']\<rparr>)"
    by (simp add: captureWithPageRender_def noTools_def machine_def noSite_def emptyDisk_def
        createErrorImage_def saveImage_def)
  have h2: "\<not> LookPath (noTools noSite) ''wkhtmltoimage'' \<and> \<not> LookPath (noTools noSite) ''google-chrome''
            \<and> \<not> LookPath (noTools noSite) ''chromium''"
    by (simp add: noTools_def machine_def)
  have h3: "LookPath wkWorks ''wkhtmltoimage'' \<and>
      fst (Run wkWorks [''wkhtmltoimage'', ''--quiet'', ''http://a.example/'', ''shots/a.png''] (files emptyDisk))"
    by (simp add: wkWorks_def machine_def)
  have t3: "trace emptyDisk = []" by (simp add: emptyDisk_def)
  note th1 = Capture_strategy_chain [of chromiumOnly "''http://a.example/''" "''shots/a.png''" emptyDisk]
  note th2 = Capture_strategy_chain [of "noTools noSite" "''http://a.example/''" "''shots/a.png''" emptyDisk]
  note th3 = Capture_strategy_chain [of wkWorks "''http://a.example/''" "''shots/a.png''" emptyDisk]
  have w1: "Capture chromiumOnly ''http://a.example/'' ''shots/a.png'' emptyDisk =
      strategyChain chromiumOnly rendererStrategies ''http://a.example/'' ''shots/a.png'' emptyDisk"
    using th1 by blast
  have w2: "Capture (noTools noSite) ''http://a.example/'' ''shots/a.png'' emptyDisk =
      captureWithPageRender (noTools noSite) ''http://a.example/'' ''shots/a.png'' emptyDisk"
    using th2 h2 by blast
  have w3: "trace (snd (Capture wkWorks ''http://a.example/'' ''shots/a.png'' emptyDisk)) =
      trace emptyDisk @ [Exec [''wkhtmltoimage'', ''--quiet'', ''http://a.example/'', ''shots/a.png'']]"
    using th3 h3 by blast
  show ?thesis
    using w4 unfolding w1 w2 w3 c1 c2 t3 by simp
qed

subsection \<open>The categories of the placeholders\<close>

lemma placeholders_distinct:
  "distinct [placeholder SuccessCategory, placeholder HTMLCategory,
             placeholder PDFCategory, placeholder ErrorCategory]"
  by code_simp

lemma saveImage_ok:
  "createOk e out \<Longrightarrow> writeOk e out \<Longrightarrow>
   saveImage e img out s = (None, s\<lparr>files := (files s)(out \<mapsto> JpegOf 85 img)\<rparr>)"
  by (simp add: saveImage_def)





subsection \<open>File names\<close>

lemma sanitize_collision:
  "sanitizeFilename ''https://example.com/a?b'' = ''example.com_a_b''"
  "sanitizeFilename ''http://example.com/a_b'' = ''example.com_a_b''"
  by (simp_all add: sanitizeFilename_def replaceInvalid_def safeChar_def)

lemma replaceInvalid_safe: "list_all safeChar (replaceInvalid s)"
  by (induction s) (simp_all add: replaceInvalid_def safeChar_def)

lemma list_all_take: "list_all P xs \<Longrightarrow> list_all P (take n xs)"
  by (metis append_take_drop_id list_all_append)

lemma first_capture:
  "captureOne (noTools onePageMissing) ''shots'' (target ''https://example.com/a?b'') emptyDisk =
     \<lparr>files = [''shots/example.com_a_b.png'' \<mapsto> JpegOf 85 errorImage],
      trace = [HttpGet ''https://example.com/a?b'']\<rparr>"
  by (simp add: captureOne_def targetPath_def sanitize_collision filepath_Join_def target_def
      Capture_def CaptureFromChrome_def CaptureFromChromium_def captureWithPageRender_def
      noTools_def machine_def onePageMissing_def answers_def emptyDisk_def
      createErrorImage_def saveImage_def optimizeImageSize_def getFileSize_def fileSize_def
      maxSizeBytes_def)

lemma second_capture:
  "captureOne (noTools onePageMissing) ''shots'' (target ''http://example.com/a_b'')
     \<lparr>files = [''shots/example.com_a_b.png'' \<mapsto> JpegOf 85 errorImage],
      trace = [HttpGet ''https://example.com/a?b'']\<rparr> =
     \<lparr>files = [''shots/example.com_a_b.png'' \<mapsto> JpegOf 85 htmlImage],
      trace = [HttpGet ''https://example.com/a?b'', HttpGet ''http://example.com/a_b'']\<rparr>"
  by (simp add: captureOne_def targetPath_def sanitize_collision filepath_Join_def target_def
      Capture_def CaptureFromChrome_def CaptureFromChromium_def captureWithPageRender_def
      noTools_def machine_def onePageMissing_def answers_def
      createHTMLVisualization_def saveImage_def optimizeImageSize_def getFileSize_def fileSize_def
      maxSizeBytes_def)

text \<open>
  Claim C9. \<open>sanitizeFilename\<close> removes the first \<^verbatim>\<open>https://\<close> and the first
  \<^verbatim>\<open>http://\<close>, replaces every character outside the class by an underscore and
  keeps at most 50 characters, so a file name has at most 50 characters, all of the
  class. It is not injective: two distinct URLs get the same output path in every
  output directory, and in a batch holding both the second target's artifact (an HTML
  placeholder) replaces the first target's (an error placeholder), leaving one file.
\<close>

theorem sanitizeFilename_collides:
  "sanitizeFilename url =
     take 50 (replaceInvalid
       (strings_Replace1 (strings_Replace1 url ''https://'' []) ''http://'' [])) \<and>
   length (sanitizeFilename url) \<le> 50 \<and>
   list_all safeChar (sanitizeFilename url) \<and>
   ''https://example.com/a?b'' \<noteq> ''http://example.com/a_b'' \<and>
   targetPath outputDir ''https://example.com/a?b'' = targetPath outputDir ''http://example.com/a_b'' \<and>
   files (captureScreenshots (noTools onePageMissing) [target ''https://example.com/a?b'']
            ''shots'' emptyDisk) (targetPath ''shots'' ''https://example.com/a?b'')
     = Some (JpegOf 85 errorImage) \<and>
   captureScreenshots (noTools onePageMissing)
       [target ''https://example.com/a?b'', target ''http://example.com/a_b''] ''shots'' emptyDisk
     = \<lparr>files = [targetPath ''shots'' ''http://example.com/a_b'' \<mapsto> JpegOf 85 htmlImage],
        trace = [HttpGet ''https://example.com/a?b'', HttpGet ''http://example.com/a_b'']\<rparr> \<and>
   errorImage \<noteq> htmlImage"
proof -
  have a: "sanitizeFilename url =
     take 50 (replaceInvalid
       (strings_Replace1 (strings_Replace1 url ''https://'' []) ''http://'' []))"
    by (simp add: sanitizeFilename_def Let_def)
  have b: "length (sanitizeFilename url) \<le> 50"
    unfolding a by simp
  have c: "list_all safeChar (sanitizeFilename url)"
    unfolding a by (rule list_all_take) (rule replaceInvalid_safe)
  have d: "targetPath outputDir ''https://example.com/a?b'' = targetPath outputDir ''http://example.com/a_b''"
    by (simp add: targetPath_def sanitize_collision)
  have p: "targetPath ''shots'' ''https://example.com/a?b'' = ''shots/example.com_a_b.png''"
    "targetPath ''shots'' ''http://example.com/a_b'' = ''shots/example.com_a_b.png''"
    by (simp_all add: targetPath_def sanitize_collision filepath_Join_def)
  have f: "files (captureScreenshots (noTools onePageMissing) [target ''https://example.com/a?b'']
            ''shots'' emptyDisk) (targetPath ''shots'' ''https://example.com/a?b'')
     = Some (JpegOf 85 errorImage)"
    by (simp add: first_capture p)
  have g: "captureScreenshots (noTools onePageMissing)
       [target ''https://example.com/a?b'', target ''http://example.com/a_b''] ''shots'' emptyDisk
     = \<lparr>files = [targetPath ''shots'' ''http://example.com/a_b'' \<mapsto> JpegOf 85 htmlImage],
        trace = [HttpGet ''https://example.com/a?b'', HttpGet ''http://example.com/a_b'']\<rparr>"
    by (simp add: first_capture second_capture p)
  have h: "errorImage \<noteq> htmlImage"
    using placeholders_distinct by (auto simp: placeholder_def)
  from a b c d f g h show ?thesis by simp
qed

subsection \<open>Encodings\<close>

lemma png_suffix: "strings_HasSuffix (targetPath outputDir url) ''.png''"
  by (simp add: targetPath_def filepath_Join_def strings_HasSuffix_def)

lemma tmp_is_jpeg: "formatOfExt (p @ ''.tmp.jpg'') = JPEG"
  by (simp add: formatOfExt_def strings_HasSuffix_def)

lemma saveImage_result:
  "fst (saveImage e img p s) = None \<Longrightarrow> files (snd (saveImage e img p s)) p = Some (JpegOf 85 img)"
  by (simp add: saveImage_def split: if_splits)

lemma tryConvert_changed:
  assumes "files s p = Some f" and "tmp \<noteq> p"
    and "files (snd (tryConvert e argv tmp p mb s)) p = Some g" and "g \<noteq> f"
  shows "files (snd (runCmd e argv tmp (formatOfExt tmp) s)) tmp = Some g"
  using assms
  by (auto simp: tryConvert_def runCmd_def getFileSize_def os_Remove_def os_Rename_def
      split: prod.splits if_splits option.splits sum.splits)

text \<open>
  Claim C10. The orchestrator names every artifact with the suffix \<^verbatim>\<open>.png\<close>, yet
  what the program itself encodes is JPEG: each of the four placeholder generators,
  whenever the output file can be created and written, succeeds and leaves the JPEG
  encoding at quality 85 of its image at the output path, and whenever one of them
  succeeds that is what stands there; and whenever \<open>optimizeImageSize\<close> changes the
  artifact, the new content is the file the recompression left under the name ending
  in \<^verbatim>\<open>.tmp.jpg\<close>, which ImageMagick writes as JPEG: an accepted candidate stands,
  as JPEG data, at the path of the artifact.
\<close>

theorem artifacts_are_jpeg_under_png_names:
  "strings_HasSuffix (targetPath outputDir url) ''.png'' \<and>
   (createOk e p \<and> writeOk e p \<longrightarrow>
      createPDFVisualization e p url contentLength s =
        (None, s\<lparr>files := (files s)(p \<mapsto> JpegOf 85 pdfImage)\<rparr>) \<and>
      createHTMLVisualization e p url len s =
        (None, s\<lparr>files := (files s)(p \<mapsto> JpegOf 85 htmlImage)\<rparr>) \<and>
      createSuccessVisualization e p url contentType s =
        (None, s\<lparr>files := (files s)(p \<mapsto> JpegOf 85 successImage)\<rparr>) \<and>
      createErrorImage e p title detail s =
        (None, s\<lparr>files := (files s)(p \<mapsto> JpegOf 85 errorImage)\<rparr>)) \<and>
   (fst (createPDFVisualization e p url contentLength s) = None \<longrightarrow>
      files (snd (createPDFVisualization e p url contentLength s)) p = Some (JpegOf 85 pdfImage)) \<and>
   (fst (createHTMLVisualization e p url len s) = None \<longrightarrow>
      files (snd (createHTMLVisualization e p url len s)) p = Some (JpegOf 85 htmlImage)) \<and>
   (fst (createSuccessVisualization e p url contentType s) = None \<longrightarrow>
      files (snd (createSuccessVisualization e p url contentType s)) p = Some (JpegOf 85 successImage)) \<and>
   (fst (createErrorImage e p title detail s) = None \<longrightarrow>
      files (snd (createErrorImage e p title detail s)) p = Some (JpegOf 85 errorImage)) \<and>
   isJPEG (JpegOf 85 img) \<and>
   (files s p = Some f \<and> files (snd (optimizeImageSize e p k s)) p = Some g \<and> g \<noteq> f \<longrightarrow>
      files (snd (runCmd e (optimizeCmd p) (p @ ''.tmp.jpg'') JPEG s)) (p @ ''.tmp.jpg'') = Some g) \<and>
   (files s p = Some f \<and> maxSizeBytes k < fileSize e f \<and> LookPath e ''convert'' \<and>
    Run e (optimizeCmd p) (files s) = (True, Some bs) \<and> int (length bs) < maxSizeBytes k \<and>
    renameOk e (p @ ''.tmp.jpg'') p \<longrightarrow>
      files (snd (optimizeImageSize e p k s)) p = Some (Data JPEG bs) \<and> isJPEG (Data JPEG bs))"
proof -
  have ne: "p @ ''.tmp.jpg'' \<noteq> p"
    by simp
  have a: "isJPEG (JpegOf 85 img)"
    by (simp add: isJPEG_def)
  have w: "createPDFVisualization e p url contentLength s =
        (None, s\<lparr>files := (files s)(p \<mapsto> JpegOf 85 pdfImage)\<rparr>) \<and>
      createHTMLVisualization e p url len s =
        (None, s\<lparr>files := (files s)(p \<mapsto> JpegOf 85 htmlImage)\<rparr>) \<and>
      createSuccessVisualization e p url contentType s =
        (None, s\<lparr>files := (files s)(p \<mapsto> JpegOf 85 successImage)\<rparr>) \<and>
      createErrorImage e p title detail s =
        (None, s\<lparr>files := (files s)(p \<mapsto> JpegOf 85 errorImage)\<rparr>)"
    if "createOk e p \<and> writeOk e p"
    using that
    by (simp add: createPDFVisualization_def createHTMLVisualization_def
        createSuccessVisualization_def createErrorImage_def saveImage_ok)
  have b: "files (snd (runCmd e (optimizeCmd p) (p @ ''.tmp.jpg'') JPEG s)) (p @ ''.tmp.jpg'') = Some g"
    if h: "files s p = Some f \<and> files (snd (optimizeImageSize e p k s)) p = Some g \<and> g \<noteq> f"
  proof -
    from h have "\<not> fileSize e f \<le> maxSizeBytes k"
      by (auto simp: optimizeImageSize_def getFileSize_def split: if_splits)
    with h have "files (snd (tryConvert e (optimizeCmd p) (p @ ''.tmp.jpg'') p (maxSizeBytes k) s)) p = Some g"
      by (auto simp: optimizeImageSize_def getFileSize_def)
    from tryConvert_changed[OF _ ne this] h show ?thesis
      by (simp add: tmp_is_jpeg)
  qed
  have c: "files (snd (optimizeImageSize e p k s)) p = Some (Data JPEG bs) \<and> isJPEG (Data JPEG bs)"
    if "files s p = Some f \<and> maxSizeBytes k < fileSize e f \<and> LookPath e ''convert'' \<and>
        Run e (optimizeCmd p) (files s) = (True, Some bs) \<and> int (length bs) < maxSizeBytes k \<and>
        renameOk e (p @ ''.tmp.jpg'') p"
    using that
    by (simp add: optimizeImageSize_def getFileSize_def tryConvert_def runCmd_def tmp_is_jpeg
        fileSize_def os_Rename_def os_Remove_def isJPEG_def optimizeCmd_def)
  have d: "(fst (createPDFVisualization e p url contentLength s) = None \<longrightarrow>
      files (snd (createPDFVisualization e p url contentLength s)) p = Some (JpegOf 85 pdfImage)) \<and>
   (fst (createHTMLVisualization e p url len s) = None \<longrightarrow>
      files (snd (createHTMLVisualization e p url len s)) p = Some (JpegOf 85 htmlImage)) \<and>
   (fst (createSuccessVisualization e p url contentType s) = None \<longrightarrow>
      files (snd (createSuccessVisualization e p url contentType s)) p = Some (JpegOf 85 successImage)) \<and>
   (fst (createErrorImage e p title detail s) = None \<longrightarrow>
      files (snd (createErrorImage e p title detail s)) p = Some (JpegOf 85 errorImage))"
    by (simp add: createPDFVisualization_def createHTMLVisualization_def
        createSuccessVisualization_def createErrorImage_def saveImage_result)
  from png_suffix a w b c d show ?thesis
    by blast
qed

theorem artifacts_are_jpeg_witness:
  "files bigCapture ''shots/example.com_a_b.png'' = Some (Data PNG (replicate 3000 (CHR ''x''))) \<and>
   targetPath ''shots'' ''http://example.com/a_b'' = ''shots/example.com_a_b.png'' \<and>
   strings_HasSuffix ''shots/example.com_a_b.png'' ''.png'' \<and>
   files (snd (optimizeImageSize (convertTo 500) ''shots/example.com_a_b.png'' 1 bigCapture))
      ''shots/example.com_a_b.png'' = Some (Data JPEG (replicate 500 (CHR ''x''))) \<and>
   createOk (convertTo 500) ''shots/example.com_a_b.png'' \<and>
   writeOk (convertTo 500) ''shots/example.com_a_b.png'' \<and>
   files (snd (createPDFVisualization (convertTo 500) ''shots/example.com_a_b.png''
                 ''http://example.com/a_b'' ''4'' bigCapture))
      ''shots/example.com_a_b.png'' = Some (JpegOf 85 pdfImage) \<and>
   files (snd (createHTMLVisualization (convertTo 500) ''shots/example.com_a_b.png''
                 ''http://example.com/a_b'' 4 bigCapture))
      ''shots/example.com_a_b.png'' = Some (JpegOf 85 htmlImage) \<and>
   files (snd (createSuccessVisualization (convertTo 500) ''shots/example.com_a_b.png''
                 ''http://example.com/a_b'' ''image/gif'' bigCapture))
      ''shots/example.com_a_b.png'' = Some (JpegOf 85 successImage) \<and>
   fst (createErrorImage (convertTo 500) ''shots/example.com_a_b.png'' ''HTTP 404'' [] bigCapture) = None \<and>
   files (snd (createErrorImage (convertTo 500) ''shots/example.com_a_b.png'' ''HTTP 404'' [] bigCapture))
      ''shots/example.com_a_b.png'' = Some (JpegOf 85 errorImage)"
proof -
  let ?p = "''shots/example.com_a_b.png''"
  let ?e = "convertTo 500"
  have h1: "files bigCapture ?p = Some (Data PNG (replicate 3000 (CHR ''x'')))"
    by (simp add: bigCapture_def)
  have h2: "maxSizeBytes 1 < fileSize ?e (Data PNG (replicate 3000 (CHR ''x'')))"
    by (simp add: maxSizeBytes_def fileSize_def)
  have h3: "LookPath ?e ''convert''"
    by (simp add: convertTo_def machine_def)
  have h4: "Run ?e (optimizeCmd ?p) (files bigCapture) = (True, Some (replicate 500 (CHR ''x'')))"
    by (simp add: convertTo_def machine_def)
  have h5: "int (length (replicate 500 (CHR ''x''))) < maxSizeBytes 1"
    by (simp add: maxSizeBytes_def)
  have h6: "renameOk ?e (?p @ ''.tmp.jpg'') ?p"
    by (simp add: convertTo_def machine_def)
  have h8: "createOk ?e ?p \<and> writeOk ?e ?p"
    by (simp add: convertTo_def machine_def)
  have t: "targetPath ''shots'' ''http://example.com/a_b'' = ?p"
    by (simp add: targetPath_def sanitize_collision filepath_Join_def)
  note th = artifacts_are_jpeg_under_png_names
    [where outputDir = "''shots''" and url = "''http://example.com/a_b''" and e = ?e and p = ?p
       and s = bigCapture and title = "''HTTP 404''" and detail = "[]"
       and contentLength = "''4''" and len = 4 and contentType = "''image/gif''"
       and f = "Data PNG (replicate 3000 (CHR ''x''))" and k = 1
       and bs = "replicate 500 (CHR ''x'')"]
  have w1: "files (snd (optimizeImageSize ?e ?p 1 bigCapture)) ?p
      = Some (Data JPEG (replicate 500 (CHR ''x'')))"
    using th h1 h2 h3 h4 h5 h6 by blast
  have g: "createPDFVisualization ?e ?p ''http://example.com/a_b'' ''4'' bigCapture =
        (None, bigCapture\<lparr>files := (files bigCapture)(?p \<mapsto> JpegOf 85 pdfImage)\<rparr>) \<and>
      createHTMLVisualization ?e ?p ''http://example.com/a_b'' 4 bigCapture =
        (None, bigCapture\<lparr>files := (files bigCapture)(?p \<mapsto> JpegOf 85 htmlImage)\<rparr>) \<and>
      createSuccessVisualization ?e ?p ''http://example.com/a_b'' ''image/gif'' bigCapture =
        (None, bigCapture\<lparr>files := (files bigCapture)(?p \<mapsto> JpegOf 85 successImage)\<rparr>) \<and>
      createErrorImage ?e ?p ''HTTP 404'' [] bigCapture =
        (None, bigCapture\<lparr>files := (files bigCapture)(?p \<mapsto> JpegOf 85 errorImage)\<rparr>)"
    using th h8 by blast
  have w3: "strings_HasSuffix (targetPath ''shots'' ''http://example.com/a_b'') ''.png''"
    using th by blast
  show ?thesis
    using h1 t w1 w3 h8 g by simp
qed

subsection \<open>The PDF chain\<close>

text \<open>
  Claim C1. The claim asks that a rasterizer which is present but fails hands over to
  the next one. \<open>CapturePDF\<close> returns the result of the first rasterizer that is on
  the path: with pdftoppm and convert both installed and pdftoppm failing, it returns
  pdftoppm's error, convert is never started although it would have succeeded, and no
  artifact, not even the PDF placeholder, is left at the output path.
\<close>

theorem CapturePDF_stops_at_failed_pdftoppm:
  "LookPath pdftoppmFails ''convert'' \<and>
   fst (Run pdftoppmFails
          [''convert'', ''-density'', ''150'', ''-quality'', ''85'', ''shots/.temp/temp.pdf[0]'',
           ''-resize'', ''1024x768'', ''shots/r.png'']
          [''shots/.temp/temp.pdf'' \<mapsto> Data Unknown ''%PDF'']) \<and>
   fst (CapturePDF pdftoppmFails ''http://a.example/r.pdf'' ''shots/r.png'' ''shots/.temp'' emptyDisk)
     = Some PdftoppmFailed \<and>
   files (snd (CapturePDF pdftoppmFails ''http://a.example/r.pdf'' ''shots/r.png'' ''shots/.temp''
                 emptyDisk)) ''shots/r.png'' = None \<and>
   trace (snd (CapturePDF pdftoppmFails ''http://a.example/r.pdf'' ''shots/r.png'' ''shots/.temp''
                 emptyDisk))
     = [HttpGet ''http://a.example/r.pdf'', BodyRead 4,
        Exec [''pdftoppm'', ''-png'', ''-f'', ''1'', ''-l'', ''1'', ''-singlefile'',
              ''shots/.temp/temp.pdf'', ''shots/r'']]"
  by (simp add: CapturePDF_def pdftoppmFails_def machine_def answers_def emptyDisk_def
      filepath_Join_def capturePDFWithPdftoppm_def runCmd_def strings_TrimSuffix_def
      strings_HasSuffix_def os_Remove_def)

text \<open>
  Claim C2. The claim asks that the temporary PDF is removed on every exit path. When
  the body stream ends with an error, \<open>CapturePDF\<close> returns before the removal is
  registered: the temporary file, holding the bytes received so far, stays on disk.
\<close>

theorem CapturePDF_leaves_temp_file:
  "CapturePDF (noTools droppedDownload) ''http://a.example/r.pdf'' ''shots/r.png'' ''shots/.temp''
     emptyDisk =
     (Some TempPDFSaveFailed,
      \<lparr>files = [''shots/.temp/temp.pdf'' \<mapsto> Data Unknown ''%PD''],
       trace = [HttpGet ''http://a.example/r.pdf'', BodyRead 3]\<rparr>)"
  by (simp add: CapturePDF_def noTools_def machine_def droppedDownload_def emptyDisk_def
      filepath_Join_def)

text \<open>
  Claim C6. The claim asks that every fetch reads at most a configured number of bytes
  of the body. \<open>fetchContent\<close> stops at its limit of 102400 bytes; \<open>CapturePDF\<close>
  has no limit and reads all 200000 bytes of the same body.
\<close>

theorem CapturePDF_reads_whole_body:
  "fetchLimit = 102400 \<and>
   trace (snd (fetchContent (noTools largeDocument) ''http://a.example/r.pdf'' emptyDisk))
     = [HttpGet ''http://a.example/r.pdf'', BodyRead 102400] \<and>
   length (fst (fetchContent (noTools largeDocument) ''http://a.example/r.pdf'' emptyDisk)) = 102400 \<and>
   trace (snd (CapturePDF (noTools largeDocument) ''http://a.example/r.pdf'' ''shots/r.png''
                 ''shots/.temp'' emptyDisk))
     = [HttpGet ''http://a.example/r.pdf'', BodyRead 200000]"
  by (simp add: fetchLimit_def fetchContent_def CapturePDF_def noTools_def machine_def
      largeDocument_def emptyDisk_def filepath_Join_def createPDFVisualization_def
      saveImage_def os_Remove_def)

subsection \<open>Waiting for processes\<close>

lemma run_timed_result:
  "cmd_Run_timed rt e argv out fm s = Some (d, r) \<Longrightarrow> r = runCmd e argv out fm s"
  by (auto simp: cmd_Run_timed_def split: if_splits option.splits)

lemma timed_strategies:
  "captureWithWkhtmltoimage_timed sc rt e url out s = Some (d, r) \<Longrightarrow>
     r = captureWithWkhtmltoimage e url out s"
  "captureWithChrome_timed sc rt e url out s = Some (d, r) \<Longrightarrow>
     r = captureWithChrome e url out s"
  "captureWithChromium_timed sc rt e url out s = Some (d, r) \<Longrightarrow>
     r = captureWithChromium e url out s"
  by (auto simp: captureWithWkhtmltoimage_timed_def captureWithWkhtmltoimage_def
      captureWithChrome_timed_def captureWithChrome_def
      captureWithChromium_timed_def captureWithChromium_def
      split: option.splits prod.splits dest!: run_timed_result)

lemma timed_from_chromium:
  "CaptureFromChromium_timed sc rt e url out s = Some (d, r) \<Longrightarrow>
     r = CaptureFromChromium e url out s"
  by (auto simp: CaptureFromChromium_timed_def CaptureFromChromium_def
      split: if_splits option.splits prod.splits dest!: timed_strategies(3))

lemma timed_from_chrome:
  "CaptureFromChrome_timed sc rt e url out s = Some (d, r) \<Longrightarrow>
     r = CaptureFromChrome e url out s"
  by (auto simp: CaptureFromChrome_timed_def CaptureFromChrome_def afterSeconds_def
      split: if_splits option.splits prod.splits
      dest!: timed_strategies(2) timed_from_chromium)

lemma timed_Capture:
  "Capture_timed sc rt e url out s = Some (d, r) \<Longrightarrow> r = Capture e url out s"
  by (auto simp: Capture_timed_def Capture_def afterSeconds_def
      split: if_splits option.splits prod.splits
      dest!: timed_strategies(1) timed_from_chrome)

text \<open>
  Claim C8. The claim asks that no strategy attempt waits longer than the configured
  timeout and that a timeout counts as a failed attempt. No process is started with a
  timer: with a timeout of 10 seconds the wkhtmltoimage attempt waits the whole hour
  the process runs, the chain reaches google-chrome only after it, and when
  wkhtmltoimage never exits \<open>Capture\<close> never returns, although google-chrome is
  installed and would have taken the screenshot. The receiver's timeout has no
  influence on the chain.
\<close>

theorem tool_runs_are_not_timeboxed:
  "timeout (NewScreenshotter 10 True) = 10 \<and>
   captureWithWkhtmltoimage_timed (NewScreenshotter 10 True) slowWk wkFails
       ''http://a.example/'' ''shots/a.png'' emptyDisk
     = Some (3600, Some WkhtmltoimageFailed,
             \<lparr>files = Map.empty,
              trace = [Exec [''wkhtmltoimage'', ''--quiet'', ''http://a.example/'', ''shots/a.png'']]\<rparr>) \<and>
   Capture_timed (NewScreenshotter 10 True) slowWk wkFails
       ''http://a.example/'' ''shots/a.png'' emptyDisk
     = Some (3602, Capture wkFails ''http://a.example/'' ''shots/a.png'' emptyDisk) \<and>
   fst (Capture wkFails ''http://a.example/'' ''shots/a.png'' emptyDisk) = None \<and>
   Capture_timed (NewScreenshotter 10 True) hungWk wkFails
       ''http://a.example/'' ''shots/a.png'' emptyDisk = None \<and>
   Capture_timed sc rt e url out s = Capture_timed (NewScreenshotter 10 True) rt e url out s"
proof -
  have a: "timeout (NewScreenshotter 10 True) = 10"
    by (simp add: NewScreenshotter_def)
  have b: "captureWithWkhtmltoimage_timed (NewScreenshotter 10 True) slowWk wkFails
       ''http://a.example/'' ''shots/a.png'' emptyDisk
     = Some (3600, Some WkhtmltoimageFailed,
             \<lparr>files = Map.empty,
              trace = [Exec [''wkhtmltoimage'', ''--quiet'', ''http://a.example/'', ''shots/a.png'']]\<rparr>)"
    by (simp add: captureWithWkhtmltoimage_timed_def cmd_Run_timed_def runCmd_def slowWk_def
        wkFails_def machine_def emptyDisk_def)
  have c0: "Capture_timed (NewScreenshotter 10 True) slowWk wkFails
       ''http://a.example/'' ''shots/a.png'' emptyDisk
     = Some (3602, None,
             \<lparr>files = [''shots/a.png'' \<mapsto> Data PNG ''PNGDATA''],
              trace = [Exec [''wkhtmltoimage'', ''--quiet'', ''http://a.example/'', ''shots/a.png''],
                       Exec [''google-chrome'', ''--headless'', ''--disable-gpu'', ''--no-sandbox'',
                             ''--screenshot=shots/a.png'', ''--window-size=1024,768'',
                             ''http://a.example/'']]\<rparr>)"
    by (simp add: Capture_timed_def CaptureFromChrome_timed_def afterSeconds_def
        captureWithWkhtmltoimage_timed_def captureWithChrome_timed_def cmd_Run_timed_def
        runCmd_def slowWk_def wkFails_def machine_def emptyDisk_def)
  from timed_Capture[OF c0]
  have c1: "Capture wkFails ''http://a.example/'' ''shots/a.png'' emptyDisk
     = (None,
        \<lparr>files = [''shots/a.png'' \<mapsto> Data PNG ''PNGDATA''],
         trace = [Exec [''wkhtmltoimage'', ''--quiet'', ''http://a.example/'', ''shots/a.png''],
                  Exec [''google-chrome'', ''--headless'', ''--disable-gpu'', ''--no-sandbox'',
                        ''--screenshot=shots/a.png'', ''--window-size=1024,768'',
                        ''http://a.example/'']]\<rparr>)"
    by simp
  have d: "Capture_timed (NewScreenshotter 10 True) hungWk wkFails
       ''http://a.example/'' ''shots/a.png'' emptyDisk = None"
    by (simp add: Capture_timed_def captureWithWkhtmltoimage_timed_def cmd_Run_timed_def
        hungWk_def wkFails_def machine_def)
  have f: "Capture_timed sc rt e url out s = Capture_timed (NewScreenshotter 10 True) rt e url out s"
    unfolding Capture_timed_def CaptureFromChrome_timed_def CaptureFromChromium_timed_def
      captureWithWkhtmltoimage_timed_def captureWithChrome_timed_def
      captureWithChromium_timed_def
    by (rule refl)
  from a b c0 c1 d f show ?thesis by simp
qed

end
